theory Spec2Isabelle
  imports Complex_Main
begin

section \<open>Alerts and the active event set of selfdrive/controls/lib/events.py\<close>

text \<open>
  The development embeds the classes \<^verbatim>\<open>Priority\<close>, \<^verbatim>\<open>Alert\<close> and \<^verbatim>\<open>Events\<close> of
  \<^verbatim>\<open>selfdrive/controls/lib/events.py\<close>.

  Conventions of the embedding:
  \<^item> Python's unbounded integers are \<open>int\<close>; event names (\<^verbatim>\<open>List[int]\<close>) are \<open>int\<close>, event
    types (\<^verbatim>\<open>str\<close>) are \<open>string\<close>.
  \<^item> A finite Python float (a duration, a delay, the cycle period) is the rational number
    it denotes. The division of line 137 is the division of IEEE binary64 floats, rounded
    to the nearest float, ties to even; the product and the comparison of line 95 are
    computed exactly.
  \<^item> \<^verbatim>\<open>DT_CTRL\<close> is imported from \<^verbatim>\<open>common.realtime\<close>, \<^verbatim>\<open>EVENT_NAME\<close> is built from
    the schema of \<^verbatim>\<open>cereal\<close>; both live outside this file and are parameters
    (\<open>dt\<close>, \<open>EVENT_NAME\<close>) of the functions that read them.
  \<^item> The module-level dictionary \<^verbatim>\<open>EVENTS\<close> is a parameter too. Its \<^verbatim>\<open>Alert\<close> objects are
    mutable and \<^verbatim>\<open>create_alerts\<close> writes to them in place, so the function takes the
    catalog and returns it as it is after the call.
  \<^item> A raised exception is a value \<open>Inl err\<close>.
\<close>

subsection \<open>Priority (lines 23-29)\<close>

datatype Priority = LOWEST | LOWER | LOW | MID | HIGH | HIGHEST

text \<open>The integer value of each member of the \<^verbatim>\<open>IntEnum\<close>.\<close>

fun priority_value :: "Priority \<Rightarrow> int" where
  "priority_value LOWEST = 0"
| "priority_value LOWER = 1"
| "priority_value LOW = 2"
| "priority_value MID = 3"
| "priority_value HIGH = 4"
| "priority_value HIGHEST = 5"

subsection \<open>Exceptions\<close>

datatype error =
  KeyError | ZeroDivisionError | OverflowError | ValueError | TypeError | Raised string

subsection \<open>Alert (lines 116-149)\<close>

text \<open>
  Modelled from the spec: \<^verbatim>\<open>AlertStatus\<close> and \<^verbatim>\<open>AlertSize\<close> are enums of the \<^verbatim>\<open>cereal\<close>
  schema (\<^verbatim>\<open>log.ControlsState\<close>), which is not part of this file; the spec lists their
  members as \<^verbatim>\<open>normal|userPrompt|critical\<close> and \<^verbatim>\<open>none|small|mid|full\<close>. The visual and
  audible indicator tags (\<^verbatim>\<open>car.CarControl.HUDControl\<close>) are kept as the enumerant's name.
\<close>

datatype AlertStatus = normal | userPrompt | critical

datatype AlertSize = none | small | mid | full

type_synonym VisualAlert = string

type_synonym AudibleAlert = string

record Alert =
  alert_text_1 :: string
  alert_text_2 :: string
  alert_status :: AlertStatus
  alert_size :: AlertSize
  priority :: Priority
  visual_alert :: VisualAlert
  audible_alert :: AudibleAlert
  duration :: int
  alert_rate :: rat
  creation_delay :: rat
  alert_type :: string
  event_type :: "string option"

text \<open>Python's \<^verbatim>\<open>int(x)\<close> on a float: truncation towards zero.\<close>

definition py_int :: "rat \<Rightarrow> int" where
  "py_int x = (if 0 \<le> x then \<lfloor>x\<rfloor> else \<lceil>x\<rceil>)"

text \<open>
  A Python float: a finite binary64 value, given by the rational it denotes, an infinity
  or a NaN.
\<close>

datatype pyfloat = Finite rat | PosInf | NegInf | NaN

text \<open>Python's \<^verbatim>\<open>int.bit_length\<close>: the number of binary digits of \<open>n\<close>.\<close>

fun bit_length :: "nat \<Rightarrow> nat" where
  "bit_length n = (if n = 0 then 0 else Suc (bit_length (n div 2)))"

declare bit_length.simps [simp del]

text \<open>The power of two with an integer exponent.\<close>

definition pow2 :: "int \<Rightarrow> rat" where
  "pow2 k = (if 0 \<le> k then 2 ^ nat k else 1 / 2 ^ nat (- k))"

text \<open>For a positive \<open>a\<close>, the exponent \<open>e\<close> with \<open>2 ^ e \<le> a < 2 ^ (e + 1)\<close>.\<close>

definition ilog2 :: "rat \<Rightarrow> int" where
  "ilog2 a = (if 1 \<le> a then int (bit_length (nat \<lfloor>a\<rfloor>)) - 1
              else - int (bit_length (nat (\<lceil>1 / a\<rceil> - 1))))"

text \<open>The nearest integer, the even one of the two at a tie.\<close>

definition round_half_even :: "rat \<Rightarrow> int" where
  "round_half_even x =
     (let f = \<lfloor>x\<rfloor>; r = x - of_int f
      in if r < 1 / 2 then f else if 1 / 2 < r then f + 1 else if even f then f else f + 1)"

text \<open>
  The rounding of an exact result to binary64 (53 significant bits, exponents from -1022
  to 1023, gradual underflow), to nearest and ties to even, as the hardware division
  behind Python's \<^verbatim>\<open>/\<close> on floats does it: a result of magnitude at least
  \<open>2 ^ 1024 - 2 ^ 970\<close> (the largest float plus half a unit in its last place) rounds to an
  infinity; any other one rounds to the nearest multiple of the unit in the last place
  of its binade.
\<close>

definition round64 :: "rat \<Rightarrow> pyfloat" where
  "round64 x =
     (if 2 ^ 1024 - 2 ^ 970 \<le> \<bar>x\<bar> then (if 0 < x then PosInf else NegInf)
      else if x = 0 then Finite 0
      else let q = pow2 (max (ilog2 \<bar>x\<bar>) (- 1022) - 52)
           in Finite (sgn x * of_int (round_half_even (\<bar>x\<bar> / q)) * q))"

text \<open>
  \<^verbatim>\<open>duration / DT_CTRL\<close>: Python raises \<^verbatim>\<open>ZeroDivisionError\<close> for a zero divisor, whatever the
  dividend; the divisor is the finite float \<^verbatim>\<open>DT_CTRL\<close>.
\<close>

definition float_div :: "pyfloat \<Rightarrow> rat \<Rightarrow> error + pyfloat" where
  "float_div x dt =
     (if dt = 0 then Inl ZeroDivisionError
      else Inr (case x of
                  Finite a \<Rightarrow> round64 (a / dt)
                | PosInf \<Rightarrow> (if 0 < dt then PosInf else NegInf)
                | NegInf \<Rightarrow> (if 0 < dt then NegInf else PosInf)
                | NaN \<Rightarrow> NaN))"

text \<open>
  \<^verbatim>\<open>int(x)\<close> on a float: \<^verbatim>\<open>OverflowError\<close> for an infinity, \<^verbatim>\<open>ValueError\<close> for a NaN, the
  truncation otherwise.
\<close>

definition int_of_float :: "pyfloat \<Rightarrow> error + int" where
  "int_of_float x =
     (case x of
        Finite q \<Rightarrow> Inr (py_int q)
      | PosInf \<Rightarrow> Inl OverflowError
      | NegInf \<Rightarrow> Inl OverflowError
      | NaN \<Rightarrow> Inl ValueError)"

text \<open>
  \<^verbatim>\<open>Alert.__init__\<close>, with the default arguments \<^verbatim>\<open>alert_rate=0.\<close> and
  \<^verbatim>\<open>creation_delay=0.\<close> passed explicitly. Line 137 is \<^verbatim>\<open>int(duration / DT_CTRL)\<close>; line 140
  stores \<^verbatim>\<open>creation_delay\<close> as it is given. An exception of line 137 leaves no object.
\<close>

definition Alert_init ::
  "rat \<Rightarrow> string \<Rightarrow> string \<Rightarrow> AlertStatus \<Rightarrow> AlertSize \<Rightarrow> Priority \<Rightarrow> VisualAlert \<Rightarrow>
   AudibleAlert \<Rightarrow> pyfloat \<Rightarrow> rat \<Rightarrow> rat \<Rightarrow> error + Alert" where
  "Alert_init dt text_1 text_2 status size' prio visual audible duration' rate delay =
     (case float_div duration' dt of
        Inl err \<Rightarrow> Inl err
      | Inr q \<Rightarrow>
          (case int_of_float q of
             Inl err \<Rightarrow> Inl err
           | Inr n \<Rightarrow>
               Inr \<lparr>alert_text_1 = text_1, alert_text_2 = text_2, alert_status = status,
                    alert_size = size', priority = prio, visual_alert = visual,
                    audible_alert = audible, duration = n,
                    alert_rate = rate, creation_delay = delay,
                    alert_type = [], event_type = None\<rparr>))"

text \<open>\<^verbatim>\<open>Alert.__gt__\<close> (lines 148-149): the comparison of the two \<^verbatim>\<open>IntEnum\<close> values.\<close>

definition Alert_gt :: "Alert \<Rightarrow> Alert \<Rightarrow> bool" where
  "Alert_gt self alert2 = (priority_value (priority self) > priority_value (priority alert2))"

subsection \<open>The catalog EVENTS (line 304)\<close>

text \<open>
  \<^verbatim>\<open>Dict[int, Dict[str, Union[Alert, AlertCallbackType]]]\<close>. A callback is called as
  \<^verbatim>\<open>alert(*callback_args)\<close>: it is a function of the argument list that returns an alert or
  raises. Every slot of the source's dictionary literal holds the result of its own
  constructor call or a function, so no \<^verbatim>\<open>Alert\<close> object is shared between two slots, and
  a slot \<open>(e, et)\<close> of the map stands for the object stored there.
\<close>

datatype 'a entry = Fixed Alert | Callback "'a list \<Rightarrow> error + Alert"

type_synonym 'a catalog = "int \<rightharpoonup> (string \<rightharpoonup> 'a entry)"

subsection \<open>Events (lines 57-113)\<close>

record Events =
  events :: "int list"
  static_events :: "int list"
  events_prev :: "int \<rightharpoonup> int"

text \<open>\<^verbatim>\<open>Events.__init__\<close>: \<^verbatim>\<open>dict.fromkeys(EVENTS.keys(), 0)\<close>.\<close>

definition Events_init :: "'a catalog \<Rightarrow> Events" where
  "Events_init EVENTS =
     \<lparr>events = [], static_events = [],
      events_prev = (\<lambda>k. case EVENTS k of None \<Rightarrow> None | Some _ \<Rightarrow> Some 0)\<rparr>"

definition add :: "int \<Rightarrow> bool \<Rightarrow> Events \<Rightarrow> Events" where
  "add event_name static self =
     (let self1 = (if static then self\<lparr>static_events := static_events self @ [event_name]\<rparr>
                   else self)
      in self1\<lparr>events := events self1 @ [event_name]\<rparr>)"

text \<open>
  \<^verbatim>\<open>clear\<close>: the dictionary comprehension runs over the items of \<^verbatim>\<open>events_prev\<close>, so the keys
  stay the same.
\<close>

definition clear :: "Events \<Rightarrow> Events" where
  "clear self =
     self\<lparr>events_prev :=
            (\<lambda>k. case events_prev self k of None \<Rightarrow> None
                 | Some v \<Rightarrow> Some (if k \<in> set (events self) then v + 1 else 0)),
          events := static_events self\<rparr>"

text \<open>\<^verbatim>\<open>any\<close>: \<^verbatim>\<open>EVENTS.get(e, {})\<close> is the empty dictionary for an unknown event.\<close>

definition get_or_empty :: "'a catalog \<Rightarrow> int \<Rightarrow> (string \<rightharpoonup> 'a entry)" where
  "get_or_empty EVENTS e = (case EVENTS e of None \<Rightarrow> Map.empty | Some d \<Rightarrow> d)"

definition any :: "'a catalog \<Rightarrow> Events \<Rightarrow> string \<Rightarrow> bool" where
  "any EVENTS self et = list_ex (\<lambda>e. get_or_empty EVENTS e et \<noteq> None) (events self)"

text \<open>Lines 96-97: the two attribute writes on the alert.\<close>

definition stamp :: "string \<Rightarrow> string \<Rightarrow> Alert \<Rightarrow> Alert" where
  "stamp nm et alert = alert\<lparr>alert_type := nm @ ''/'' @ et, event_type := Some et\<rparr>"

text \<open>
  Lines 91-93: the entry of the catalog is the alert itself, or a callback that is called
  with the unpacked argument list.
\<close>

definition alert_of :: "'a entry \<Rightarrow> 'a list \<Rightarrow> error + Alert" where
  "alert_of x callback_args = (case x of Fixed a \<Rightarrow> Inr a | Callback f \<Rightarrow> f callback_args)"

text \<open>
  The body of the inner loop of \<^verbatim>\<open>create_alerts\<close> (lines 90-98) for the event \<open>e\<close> and the
  event type \<open>et\<close>. \<^verbatim>\<open>types\<close> is the key view of \<^verbatim>\<open>EVENTS[e]\<close>; the loop never adds or
  removes a key, so \<^verbatim>\<open>et in types\<close> is read from the current dictionary. The order of the
  source is kept: the callback is called (line 93) before \<^verbatim>\<open>events_prev[e]\<close> is read
  (line 95), and \<^verbatim>\<open>EVENT_NAME[e]\<close> is read (line 96) before the alert is written. The two
  writes go to the object of the slot when the alert is the catalog's own, and to the
  callback's fresh object otherwise.
\<close>

definition create_alerts_body ::
  "rat \<Rightarrow> (int \<rightharpoonup> string) \<Rightarrow> Events \<Rightarrow> 'a list \<Rightarrow> int \<Rightarrow> string \<Rightarrow> 'a catalog \<Rightarrow>
   Alert list \<Rightarrow> 'a catalog \<times> (error + Alert list)" where
  "create_alerts_body dt EVENT_NAME self callback_args e et EVENTS ret =
     (case EVENTS e of
        None \<Rightarrow> (EVENTS, Inl KeyError)
      | Some d \<Rightarrow>
          (case d et of
             None \<Rightarrow> (EVENTS, Inr ret)
           | Some x \<Rightarrow>
               (case alert_of x callback_args of
                  Inl err \<Rightarrow> (EVENTS, Inl err)
                | Inr alert \<Rightarrow>
                    (case events_prev self e of
                       None \<Rightarrow> (EVENTS, Inl KeyError)
                     | Some c \<Rightarrow>
                         if dt * of_int (c + 1) \<ge> creation_delay alert then
                           (case EVENT_NAME e of
                              None \<Rightarrow> (EVENTS, Inl KeyError)
                            | Some nm \<Rightarrow>
                                ((case x of
                                    Fixed _ \<Rightarrow> EVENTS(e \<mapsto> d(et \<mapsto> Fixed (stamp nm et alert)))
                                  | Callback _ \<Rightarrow> EVENTS),
                                 Inr (ret @ [stamp nm et alert])))
                         else (EVENTS, Inr ret)))))"

text \<open>
  The inner loop (line 89) over the requested event types. An exception ends the loop and
  leaves the writes made so far in place.
\<close>

fun create_alerts_types ::
  "rat \<Rightarrow> (int \<rightharpoonup> string) \<Rightarrow> Events \<Rightarrow> 'a list \<Rightarrow> int \<Rightarrow> string list \<Rightarrow> 'a catalog \<Rightarrow>
   Alert list \<Rightarrow> 'a catalog \<times> (error + Alert list)" where
  "create_alerts_types dt EVENT_NAME self callback_args e [] EVENTS ret = (EVENTS, Inr ret)"
| "create_alerts_types dt EVENT_NAME self callback_args e (et # ets) EVENTS ret =
     (case create_alerts_body dt EVENT_NAME self callback_args e et EVENTS ret of
        (EVENTS', Inl err) \<Rightarrow> (EVENTS', Inl err)
      | (EVENTS', Inr ret') \<Rightarrow>
          create_alerts_types dt EVENT_NAME self callback_args e ets EVENTS' ret')"

text \<open>
  The outer loop (lines 87-88) over the active events: \<^verbatim>\<open>EVENTS[e]\<close> raises for an event
  that is not a key of the catalog.
\<close>

fun create_alerts_events ::
  "rat \<Rightarrow> (int \<rightharpoonup> string) \<Rightarrow> Events \<Rightarrow> 'a list \<Rightarrow> string list \<Rightarrow> int list \<Rightarrow> 'a catalog \<Rightarrow>
   Alert list \<Rightarrow> 'a catalog \<times> (error + Alert list)" where
  "create_alerts_events dt EVENT_NAME self callback_args event_types [] EVENTS ret =
     (EVENTS, Inr ret)"
| "create_alerts_events dt EVENT_NAME self callback_args event_types (e # es) EVENTS ret =
     (case EVENTS e of
        None \<Rightarrow> (EVENTS, Inl KeyError)
      | Some _ \<Rightarrow>
          (case create_alerts_types dt EVENT_NAME self callback_args e event_types EVENTS ret of
             (EVENTS', Inl err) \<Rightarrow> (EVENTS', Inl err)
           | (EVENTS', Inr ret') \<Rightarrow>
               create_alerts_events dt EVENT_NAME self callback_args event_types es EVENTS'
                 ret'))"

text \<open>
  \<^verbatim>\<open>create_alerts\<close>: \<^verbatim>\<open>callback_args=None\<close> becomes the empty list. The result is the catalog
  after the call and either the exception or the list \<^verbatim>\<open>ret\<close>. The method assigns to no
  attribute of \<^verbatim>\<open>self\<close>.
\<close>

definition create_alerts ::
  "rat \<Rightarrow> (int \<rightharpoonup> string) \<Rightarrow> 'a catalog \<Rightarrow> Events \<Rightarrow> string list \<Rightarrow> 'a list option \<Rightarrow>
   'a catalog \<times> (error + Alert list)" where
  "create_alerts dt EVENT_NAME EVENTS self event_types callback_args =
     create_alerts_events dt EVENT_NAME self
       (case callback_args of None \<Rightarrow> [] | Some args \<Rightarrow> args)
       event_types (events self) EVENTS []"

text \<open>
  The wire event \<^verbatim>\<open>car.CarEvent\<close>: the name and the boolean fields, one per event type;
  \<open>flags ev et\<close> is the value of the field \<open>et\<close> (false unless set).
\<close>

record CarEvent =
  name :: int
  flags :: "string \<Rightarrow> bool"

text \<open>\<^verbatim>\<open>add_from_msg\<close> (lines 101-103) appends \<^verbatim>\<open>e.name.raw\<close> for every event of the message.\<close>

definition add_from_msg :: "CarEvent list \<Rightarrow> Events \<Rightarrow> Events" where
  "add_from_msg msg self = self\<lparr>events := events self @ map name msg\<rparr>"

text \<open>\<^verbatim>\<open>to_msg\<close> (lines 105-113): every key of \<^verbatim>\<open>EVENTS.get(event_name, {})\<close> is set to true.\<close>

definition to_msg :: "'a catalog \<Rightarrow> Events \<Rightarrow> CarEvent list" where
  "to_msg EVENTS self =
     map (\<lambda>event_name. \<lparr>name = event_name,
                         flags = (\<lambda>et. get_or_empty EVENTS event_name et \<noteq> None)\<rparr>)
       (events self)"

subsection \<open>One control cycle, and example data\<close>

text \<open>
  One control cycle as the caller runs it: \<^verbatim>\<open>clear()\<close> at the start, then one \<^verbatim>\<open>add\<close> for
  every asserted event, given with its \<^verbatim>\<open>static\<close> flag.
\<close>

definition cycle :: "(int \<times> bool) list \<Rightarrow> Events \<Rightarrow> Events" where
  "cycle adds self = foldl (\<lambda>s (e, st). add e st s) (clear self) adds"

text \<open>A run of cycles, the first one first.\<close>

definition cycles :: "(int \<times> bool) list list \<Rightarrow> Events \<Rightarrow> Events" where
  "cycles addss self = foldl (\<lambda>s adds. cycle adds s) self addss"

text \<open>
  The floats that the literals \<^verbatim>\<open>0.01\<close>, \<^verbatim>\<open>.1\<close> and \<^verbatim>\<open>0.29\<close> denote (the values of
  \<^verbatim>\<open>float.as_integer_ratio\<close>; the denominators are \<open>2 ^ 59\<close>, \<open>2 ^ 55\<close> and \<open>2 ^ 54\<close>).
\<close>

definition float_0_01 :: rat where
  "float_0_01 = 5764607523034235 / 576460752303423488"

definition float_0_1 :: rat where
  "float_0_1 = 3602879701896397 / 36028797018963968"

definition float_0_29 :: rat where
  "float_0_29 = 5224175567749775 / 18014398509481984"

text \<open>The float that the literal \<^verbatim>\<open>1e308\<close> denotes, an integer.\<close>

definition float_1e308 :: rat where
  "float_1e308 = 100000000000000001097906362944045541740492309677311846336810682903157585404911491537163328978494688899061249669721172515611590283743140088328307009198146046031271664502933027185697489699588559043338384466165001178426897626212945177628091195786707458122783970171784415105291802893207873272974885715430223118336"

text \<open>
  Two entries in the shape of the catalog's \<^verbatim>\<open>gasPressed\<close> and \<^verbatim>\<open>ldw\<close> entries (durations
  \<^verbatim>\<open>.1\<close> and \<^verbatim>\<open>3.\<close>), built with a cycle period of 0.01 s. The texts come from a language file
  and the numbers of the event names from the schema; both are placeholders here.
\<close>

definition gas_pressed_alert :: "error + Alert" where
  "gas_pressed_alert =
     Alert_init float_0_01 ''gas'' [] normal small LOWEST ''none'' ''none''
       (Finite float_0_1) 0 1"

definition ldw_alert :: "error + Alert" where
  "ldw_alert =
     Alert_init float_0_01 ''ldw'' [] userPrompt small LOW ''ldw'' ''prompt'' (Finite 3) 0 0"

definition example_EVENTS :: "unit catalog" where
  "example_EVENTS =
     [1 \<mapsto> Map.empty,
      2 \<mapsto> [''preEnable'' \<mapsto> Fixed (projr gas_pressed_alert)],
      3 \<mapsto> [''permanent'' \<mapsto> Fixed (projr ldw_alert)]]"

definition example_EVENT_NAME :: "int \<rightharpoonup> string" where
  "example_EVENT_NAME = [1 \<mapsto> ''stockFcw'', 2 \<mapsto> ''gasPressed'', 3 \<mapsto> ''ldw'']"

text \<open>Two wire events: one of the catalog's event 2, one of an event the catalog lacks.\<close>

definition gas_pressed_event :: CarEvent where
  "gas_pressed_event = \<lparr>name = 2, flags = (\<lambda>et. et = ''preEnable'')\<rparr>"

definition unknown_event :: CarEvent where
  "unknown_event = \<lparr>name = 9, flags = (\<lambda>et. False)\<rparr>"

subsection \<open>The resolution as the specification words it\<close>



subsection \<open>What a call of create_alerts may change in the catalog\<close>

text \<open>
  \<open>passes\<close>: the test of line 95 for the event \<open>e\<close> and an alert.
  \<open>stamped_entry\<close>: the first slot holds a fixed alert that satisfies \<open>g\<close>, and the second
  slot holds this alert with the two attributes of the event (through its name) and the
  type \<open>et\<close> written.
  \<open>stamped dt self NM E T C C'\<close>: the catalogs \<open>C\<close> and \<open>C'\<close> have the same keys, and every
  slot of \<open>C'\<close> is the slot of \<open>C\<close>, or, for an event of \<open>E\<close> and a type of \<open>T\<close> whose fixed
  alert passes the test of line 95, its stamped copy.
  \<open>stamp_of\<close>: the alert carries the stamp of an event of \<open>E\<close> and a type of \<open>T\<close>.
\<close>

definition passes :: "rat \<Rightarrow> Events \<Rightarrow> int \<Rightarrow> Alert \<Rightarrow> bool" where
  "passes dt self e alert =
     (case events_prev self e of
        None \<Rightarrow> False
      | Some c \<Rightarrow> dt * of_int (c + 1) \<ge> creation_delay alert)"

definition stamped_entry ::
  "string option \<Rightarrow> string \<Rightarrow> (Alert \<Rightarrow> bool) \<Rightarrow> 'a entry option \<Rightarrow> 'a entry option \<Rightarrow> bool" where
  "stamped_entry nmo et g x y =
     (\<exists>a nm. nmo = Some nm \<and> g a \<and> x = Some (Fixed a) \<and> y = Some (Fixed (stamp nm et a)))"

definition stamped ::
  "rat \<Rightarrow> Events \<Rightarrow> (int \<rightharpoonup> string) \<Rightarrow> int set \<Rightarrow> string set \<Rightarrow> 'a catalog \<Rightarrow> 'a catalog \<Rightarrow> bool" where
  "stamped dt self NM E T C C' =
     ((\<forall>e. (C' e = None) = (C e = None))
      \<and> (\<forall>e et. get_or_empty C' e et = get_or_empty C e et
            \<or> (e \<in> E \<and> et \<in> T
                \<and> stamped_entry (NM e) et (passes dt self e) (get_or_empty C e et)
                     (get_or_empty C' e et))))"


section \<open>Properties\<close>

subsection \<open>The rounding of the float division\<close>

lemma bit_length_bounds: "0 < n \<Longrightarrow> 2 ^ (bit_length n - 1) \<le> n \<and> n < 2 ^ bit_length n"
proof (induction n rule: bit_length.induct)
  case (1 n)
  show ?case
  proof (cases "n div 2 = 0")
    case True
    with "1.prems" have "n = 1" by (simp add: div_eq_0_iff) 
    then show ?thesis by (simp add: bit_length.simps)
  next
    case False
    then have pos: "0 < n div 2" by simp
    from "1.IH" [OF _ pos] "1.prems"
    have lo: "2 ^ (bit_length (n div 2) - 1) \<le> n div 2"
      and hi: "n div 2 < 2 ^ bit_length (n div 2)" by simp_all
    have b: "bit_length n = Suc (bit_length (n div 2))"
      using "1.prems" by (simp add: bit_length.simps [of n])
    have b1: "0 < bit_length (n div 2)"
      using pos by (simp add: bit_length.simps [of "n div 2"])
    then have "(2::nat) ^ bit_length (n div 2) = 2 * 2 ^ (bit_length (n div 2) - 1)"
      by (cases "bit_length (n div 2)") simp_all
    with lo have "2 ^ bit_length (n div 2) \<le> n" by linarith
    moreover from hi have "n < 2 * 2 ^ bit_length (n div 2)" by linarith
    ultimately show ?thesis using b by simp
  qed
qed

lemma bit_length_eq:
  assumes "2 ^ j \<le> n" "n < 2 ^ Suc j"
  shows "bit_length n = Suc j"
proof -
  from assms(1) have pos: "0 < n" by (metis not_gr_zero not_less zero_less_numeral zero_less_power)
  from bit_length_bounds [OF pos]
  have lo: "2 ^ (bit_length n - 1) \<le> n" and hi: "n < 2 ^ bit_length n" by simp_all
  from lo assms(2) have "(2::nat) ^ (bit_length n - 1) < 2 ^ Suc j" by linarith
  then have 1: "bit_length n - 1 < Suc j"
    using power_less_imp_less_exp [of 2 "bit_length n - 1" "Suc j"] by simp
  from assms(1) hi have "(2::nat) ^ j < 2 ^ bit_length n" by linarith
  then have 2: "j < bit_length n"
    using power_less_imp_less_exp [of 2 j "bit_length n"] by simp
  from 1 2 show ?thesis by linarith
qed

lemma round_half_even_eq:
  assumes "\<bar>x - of_int m\<bar> < 1 / 2"
  shows "round_half_even x = m"
proof (cases "of_int m \<le> x")
  case True
  with assms have "\<lfloor>x\<rfloor> = m" by (intro floor_unique) linarith+
  with True assms show ?thesis by (simp add: round_half_even_def Let_def)
next
  case False
  from False assms have lo: "of_int m - 1 / 2 < x" and hi: "x < of_int m"
    by linarith+
  have f: "\<lfloor>x\<rfloor> = m - 1"
  proof (rule floor_unique)
    show "of_int (m - 1) \<le> x" using lo by simp
    show "x < of_int (m - 1) + 1" using hi by simp
  qed
  from lo have "1 / 2 < x - of_int (m - 1)" by simp
  with f show ?thesis by (simp add: round_half_even_def Let_def)
qed


lemma pow2_pos [simp]: "0 < pow2 k"
  by (simp add: pow2_def)

lemma bit_length_nat_eq:
  assumes "(2::int) ^ j \<le> c" "c < 2 ^ Suc j"
  shows "bit_length (nat c) = Suc j"
proof (rule bit_length_eq)
  have c0: "0 \<le> c" using assms(1) by (smt (verit) zero_le_power)
  have "int (2 ^ j) \<le> c" using assms(1) by simp
  then show "2 ^ j \<le> nat c" using c0 by linarith
  have "c < int (2 ^ Suc j)" using assms(2) by simp
  then show "nat c < 2 ^ Suc j" using c0 by linarith
qed

lemma ilog2_eq:
  assumes lo: "pow2 e \<le> a" and hi: "a < pow2 (e + 1)"
  shows "ilog2 a = e"
proof (cases "0 \<le> e")
  case True
  define j where "j = nat e"
  with True have e: "e = int j" by simp
  from lo e have lo': "2 ^ j \<le> a" by (simp add: pow2_def)
  from hi e have hi': "a < 2 ^ Suc j" by (simp add: pow2_def nat_add_distrib)
  have "(1::rat) \<le> 2 ^ j" by simp
  with lo' have one: "1 \<le> a" by linarith
  have "of_int (2 ^ j) \<le> a" using lo' by simp
  then have flo: "(2::int) ^ j \<le> \<lfloor>a\<rfloor>" by (simp only: le_floor_iff)
  have "a < of_int (2 ^ Suc j)" using hi' by simp
  then have fhi: "\<lfloor>a\<rfloor> < 2 ^ Suc j" by (simp only: floor_less_iff)
  from bit_length_nat_eq [OF flo fhi] one e show ?thesis
    by (simp add: ilog2_def)
next
  case False
  define j where "j = nat (- e - 1)"
  with False have e: "e = - int j - 1" by simp
  have pe: "pow2 e = 1 / 2 ^ Suc j"
    using e by (simp add: pow2_def nat_add_distrib)
  have pe1: "pow2 (e + 1) = 1 / 2 ^ j"
    using e by (cases "j = 0") (simp_all add: pow2_def)
  have apos: "0 < a" using lo pow2_pos [of e] by linarith
  have "(1::rat) / 2 ^ j \<le> 1" by simp
  with hi pe1 have lt1: "a < 1" by linarith
  from hi pe1 apos have "a * 2 ^ j < 1" by (simp add: pos_less_divide_eq)
  then have inv_lo: "2 ^ j < 1 / a" using apos by (simp add: pos_less_divide_eq mult.commute)
  from lo pe apos have "1 \<le> a * 2 ^ Suc j" by (simp add: pos_divide_le_eq)
  then have inv_hi: "1 / a \<le> 2 ^ Suc j" using apos by (simp add: pos_divide_le_eq mult.commute)
  have "of_int (2 ^ j) < 1 / a" using inv_lo by simp
  then have "(2::int) ^ j < \<lceil>1 / a\<rceil>" by (simp only: less_ceiling_iff)
  then have clo: "(2::int) ^ j \<le> \<lceil>1 / a\<rceil> - 1" by simp
  have "1 / a \<le> of_int (2 ^ Suc j)" using inv_hi by simp
  then have "\<lceil>1 / a\<rceil> \<le> (2::int) ^ Suc j" by (simp only: ceiling_le_iff)
  then have chi: "\<lceil>1 / a\<rceil> - 1 < (2::int) ^ Suc j" by simp
  from bit_length_nat_eq [OF clo chi] lt1 e show ?thesis
    by (simp add: ilog2_def)
qed

lemma round64_eqI:
  assumes "pow2 e \<le> x" and "x < pow2 (e + 1)" and "- 1022 \<le> e"
    and "x < 2 ^ 1024 - 2 ^ 970"
    and "\<bar>x / pow2 (e - 52) - of_int m\<bar> < 1 / 2"
  shows "round64 x = Finite (of_int m * pow2 (e - 52))"
proof -
  have pos: "0 < x" using assms(1) pow2_pos [of e] by linarith
  then have ax: "\<bar>x\<bar> = x" by simp
  have il: "ilog2 x = e" using assms(1,2) by (rule ilog2_eq)
  have rh: "round_half_even (x / pow2 (e - 52)) = m"
    using assms(5) by (rule round_half_even_eq)
  from assms(3) have mx: "max e (- 1022) = e" by simp
  have "\<not> 2 ^ 1024 - 2 ^ 970 \<le> \<bar>x\<bar>" using assms(4) ax by linarith
  moreover have "x \<noteq> 0" using pos by simp
  ultimately show ?thesis
    using pos by (simp only: round64_def ax il mx rh Let_def if_False sgn_pos mult_1)
qed

lemma round64_overflow:
  "2 ^ 1024 - 2 ^ 970 \<le> x \<Longrightarrow> round64 x = PosInf"
proof -
  assume a: "2 ^ 1024 - 2 ^ 970 \<le> x"
  have "(0::rat) < 2 ^ 1024 - 2 ^ 970" by simp
  with a have "0 < x" "2 ^ 1024 - 2 ^ 970 \<le> \<bar>x\<bar>" by linarith+
  then show ?thesis by (simp only: round64_def if_True)
qed

text \<open>The three literals, and the float quotients of the examples.\<close>

lemma round64_0_01: "round64 (1 / 100) = Finite float_0_01"
  using round64_eqI [of "- 7" "1 / 100" 5764607523034235]
  by (simp add: pow2_def float_0_01_def)

lemma round64_0_1: "round64 (1 / 10) = Finite float_0_1"
  using round64_eqI [of "- 4" "1 / 10" 7205759403792794]
  by (simp add: pow2_def float_0_1_def)

lemma round64_0_29: "round64 (29 / 100) = Finite float_0_29"
  using round64_eqI [of "- 2" "29 / 100" 5224175567749775]
  by (simp add: pow2_def float_0_29_def)

lemma float_div_0_1: "round64 (float_0_1 / float_0_01) = Finite 10"
  using round64_eqI [of 3 "float_0_1 / float_0_01" 5629499534213120]
  by (simp add: pow2_def float_0_1_def float_0_01_def)

lemma float_div_3: "round64 (3 / float_0_01) = Finite 300"
  using round64_eqI [of 8 "3 / float_0_01" 5277655813324800]
  by (simp add: pow2_def float_0_01_def)

lemma float_div_0_29:
  "round64 (float_0_29 / float_0_01) = Finite (8162774324609023 / 281474976710656)"
  using round64_eqI [of 4 "float_0_29 / float_0_01" 8162774324609023]
  by (simp add: pow2_def float_0_29_def float_0_01_def)

lemma float_div_1: "round64 (1 / float_0_01) = Finite 100"
  using round64_eqI [of 6 "1 / float_0_01" 7036874417766400]
  by (simp add: pow2_def float_0_01_def)

lemma float_div_overflow: "round64 (2 ^ 1023 / float_0_01) = PosInf"
  by (rule round64_overflow) (simp add: float_0_01_def)

lemma py_int_0_29: "py_int (8162774324609023 / 281474976710656) = 28"
proof -
  have "\<lfloor>8162774324609023 / 281474976710656 :: rat\<rfloor> = 28"
    by (rule floor_unique) simp_all
  then show ?thesis by (simp add: py_int_def)
qed

lemma float_0_01_nonzero [simp]: "float_0_01 \<noteq> 0"
  by (simp add: float_0_01_def)

subsection \<open>The comparison of alerts\<close>

lemma priority_value_inj: "priority_value p = priority_value q \<longleftrightarrow> p = q"
  by (cases p; cases q) simp_all

lemma gas_pressed_alert_eq:
  "gas_pressed_alert =
     Inr \<lparr>alert_text_1 = ''gas'', alert_text_2 = [], alert_status = normal,
          alert_size = small, priority = LOWEST, visual_alert = ''none'',
          audible_alert = ''none'', duration = 10, alert_rate = 0, creation_delay = 1,
          alert_type = [], event_type = None\<rparr>"
  by (simp add: gas_pressed_alert_def Alert_init_def float_div_def int_of_float_def
      float_div_0_1 py_int_def)

lemma ldw_alert_eq:
  "ldw_alert =
     Inr \<lparr>alert_text_1 = ''ldw'', alert_text_2 = [], alert_status = userPrompt,
          alert_size = small, priority = LOW, visual_alert = ''ldw'',
          audible_alert = ''prompt'', duration = 300, alert_rate = 0, creation_delay = 0,
          alert_type = [], event_type = None\<rparr>"
  by (simp add: ldw_alert_def Alert_init_def float_div_def int_of_float_def float_div_3
      py_int_def)

text \<open>
  C10: \<open>a > b\<close> holds exactly when the priority of \<open>a\<close> is above the priority of \<open>b\<close> in the
  order HIGHEST > HIGH > MID > LOW > LOWER > LOWEST; the comparison reads no other field
  (two alerts with the priorities of \<open>a\<close> and \<open>b\<close> compare the same way), and two alerts of
  equal priority are unordered.
\<close>

theorem Alert_gt_priority_only:
  "(Alert_gt a b \<longleftrightarrow> priority_value (priority b) < priority_value (priority a))
   \<and> priority_value HIGHEST > priority_value HIGH
   \<and> priority_value HIGH > priority_value MID
   \<and> priority_value MID > priority_value LOW
   \<and> priority_value LOW > priority_value LOWER
   \<and> priority_value LOWER > priority_value LOWEST
   \<and> (priority a' = priority a \<and> priority b' = priority b \<longrightarrow> Alert_gt a' b' = Alert_gt a b)
   \<and> (priority a = priority b \<longrightarrow> \<not> Alert_gt a b \<and> \<not> Alert_gt b a)
   \<and> (priority a \<noteq> priority b \<longrightarrow> Alert_gt a b \<or> Alert_gt b a)"
proof -
  have "priority a \<noteq> priority b \<Longrightarrow>
        priority_value (priority a) \<noteq> priority_value (priority b)"
    by (simp add: priority_value_inj)
  then show ?thesis
    by (auto simp: Alert_gt_def)
qed

theorem Alert_gt_priority_only_witness:
  "Alert_gt (projr ldw_alert) (projr gas_pressed_alert)
   \<and> \<not> Alert_gt (projr gas_pressed_alert) (projr ldw_alert)
   \<and> \<not> Alert_gt (projr ldw_alert) (projr ldw_alert)
   \<and> \<not> Alert_gt (projr ldw_alert) ((projr ldw_alert)\<lparr>alert_text_1 := ''other''\<rparr>)
   \<and> \<not> Alert_gt ((projr ldw_alert)\<lparr>alert_text_1 := ''other''\<rparr>) (projr ldw_alert)"
  using Alert_gt_priority_only [of "projr ldw_alert" "projr gas_pressed_alert"
      "projr ldw_alert" "projr gas_pressed_alert"]
    Alert_gt_priority_only [of "projr gas_pressed_alert" "projr ldw_alert"
      "projr gas_pressed_alert" "projr ldw_alert"]
    Alert_gt_priority_only [of "projr ldw_alert"
      "(projr ldw_alert)\<lparr>alert_text_1 := ''other''\<rparr>" "projr ldw_alert" "projr ldw_alert"]
    Alert_gt_priority_only [of "(projr ldw_alert)\<lparr>alert_text_1 := ''other''\<rparr>"
      "projr ldw_alert" "projr ldw_alert" "projr ldw_alert"]
  by (simp add: gas_pressed_alert_eq ldw_alert_eq)

subsection \<open>The constructor of Alert\<close>

text \<open>
  C7 as the code has it: the constructor divides the duration by the cycle period as floats
  and converts the float quotient with \<^verbatim>\<open>int\<close>. With a cycle period of zero it raises
  \<^verbatim>\<open>ZeroDivisionError\<close>. Otherwise, when the quotient is a finite float \<open>q\<close> (the float
  nearest to the exact quotient), the stored duration is \<open>q\<close> truncated towards zero, which
  is the floor of \<open>q\<close> when \<open>q\<close> is not negative; when the quotient is infinite (an
  overflow, or an infinite duration) it raises \<^verbatim>\<open>OverflowError\<close>, and for a NaN
  \<^verbatim>\<open>ValueError\<close>. A finite duration whose exact quotient is below the overflow threshold
  always gives an alert. The creation delay is stored as the argument itself, in seconds,
  not as a cycle count.
\<close>

theorem Alert_init_duration_and_delay:
  "(dt = 0 \<longrightarrow>
      Alert_init dt text_1 text_2 status sz prio visual audible t rate d
        = Inl ZeroDivisionError)
   \<and> (dt \<noteq> 0 \<longrightarrow>
        (case float_div t dt of
           Inl err \<Rightarrow> False
         | Inr (Finite q) \<Rightarrow>
             (\<exists>a. Alert_init dt text_1 text_2 status sz prio visual audible t rate d = Inr a
                \<and> duration a = py_int q
                \<and> (0 \<le> q \<longrightarrow> duration a = \<lfloor>q\<rfloor>)
                \<and> (q \<le> 0 \<longrightarrow> duration a = \<lceil>q\<rceil>)
                \<and> creation_delay a = d \<and> alert_rate a = rate)
         | Inr NaN \<Rightarrow>
             Alert_init dt text_1 text_2 status sz prio visual audible t rate d
               = Inl ValueError
         | Inr _ \<Rightarrow>
             Alert_init dt text_1 text_2 status sz prio visual audible t rate d
               = Inl OverflowError))
   \<and> (dt \<noteq> 0 \<and> \<bar>x / dt\<bar> < 2 ^ 1024 - 2 ^ 970 \<longrightarrow>
        float_div (Finite x) dt = Inr (round64 (x / dt))
        \<and> (\<exists>a q. round64 (x / dt) = Finite q
              \<and> Alert_init dt text_1 text_2 status sz prio visual audible (Finite x) rate d
                   = Inr a
              \<and> duration a = py_int q \<and> creation_delay a = d))
   \<and> (dt \<noteq> 0 \<and> 2 ^ 1024 - 2 ^ 970 \<le> \<bar>x / dt\<bar> \<longrightarrow>
        Alert_init dt text_1 text_2 status sz prio visual audible (Finite x) rate d
          = Inl OverflowError)"
proof -
  have 1: "dt = 0 \<longrightarrow>
      Alert_init dt text_1 text_2 status sz prio visual audible t rate d
        = Inl ZeroDivisionError"
    by (simp add: Alert_init_def float_div_def)
  have 2: "dt \<noteq> 0 \<longrightarrow>
        (case float_div t dt of
           Inl err \<Rightarrow> False
         | Inr (Finite q) \<Rightarrow>
             (\<exists>a. Alert_init dt text_1 text_2 status sz prio visual audible t rate d = Inr a
                \<and> duration a = py_int q
                \<and> (0 \<le> q \<longrightarrow> duration a = \<lfloor>q\<rfloor>)
                \<and> (q \<le> 0 \<longrightarrow> duration a = \<lceil>q\<rceil>)
                \<and> creation_delay a = d \<and> alert_rate a = rate)
         | Inr NaN \<Rightarrow>
             Alert_init dt text_1 text_2 status sz prio visual audible t rate d
               = Inl ValueError
         | Inr _ \<Rightarrow>
             Alert_init dt text_1 text_2 status sz prio visual audible t rate d
               = Inl OverflowError)"
  proof
    assume dt: "dt \<noteq> 0"
    then obtain y where y: "float_div t dt = Inr y"
      by (simp add: float_div_def)
    show "case float_div t dt of
           Inl err \<Rightarrow> False
         | Inr (Finite q) \<Rightarrow>
             (\<exists>a. Alert_init dt text_1 text_2 status sz prio visual audible t rate d = Inr a
                \<and> duration a = py_int q
                \<and> (0 \<le> q \<longrightarrow> duration a = \<lfloor>q\<rfloor>)
                \<and> (q \<le> 0 \<longrightarrow> duration a = \<lceil>q\<rceil>)
                \<and> creation_delay a = d \<and> alert_rate a = rate)
         | Inr NaN \<Rightarrow>
             Alert_init dt text_1 text_2 status sz prio visual audible t rate d
               = Inl ValueError
         | Inr _ \<Rightarrow>
             Alert_init dt text_1 text_2 status sz prio visual audible t rate d
               = Inl OverflowError"
      using y by (cases y) (auto simp: Alert_init_def int_of_float_def py_int_def)
  qed
  have fin: "\<exists>q. round64 z = Finite q" if "\<bar>z\<bar> < 2 ^ 1024 - 2 ^ 970" for z
    using that by (simp add: round64_def Let_def)
  have 3: "dt \<noteq> 0 \<and> \<bar>x / dt\<bar> < 2 ^ 1024 - 2 ^ 970 \<longrightarrow>
        float_div (Finite x) dt = Inr (round64 (x / dt))
        \<and> (\<exists>a q. round64 (x / dt) = Finite q
              \<and> Alert_init dt text_1 text_2 status sz prio visual audible (Finite x) rate d
                   = Inr a
              \<and> duration a = py_int q \<and> creation_delay a = d)"
  proof
    assume h: "dt \<noteq> 0 \<and> \<bar>x / dt\<bar> < 2 ^ 1024 - 2 ^ 970"
    then obtain q where q: "round64 (x / dt) = Finite q" using fin by blast
    with h show "float_div (Finite x) dt = Inr (round64 (x / dt))
        \<and> (\<exists>a q. round64 (x / dt) = Finite q
              \<and> Alert_init dt text_1 text_2 status sz prio visual audible (Finite x) rate d
                   = Inr a
              \<and> duration a = py_int q \<and> creation_delay a = d)"
      by (simp add: Alert_init_def float_div_def int_of_float_def)
  qed
  have 4: "dt \<noteq> 0 \<and> 2 ^ 1024 - 2 ^ 970 \<le> \<bar>x / dt\<bar> \<longrightarrow>
        Alert_init dt text_1 text_2 status sz prio visual audible (Finite x) rate d
          = Inl OverflowError"
    by (simp add: Alert_init_def float_div_def int_of_float_def round64_def)
  from 1 2 3 4 show ?thesis by blast
qed

text \<open>
  At a cycle period of 0.01 s: the duration \<^verbatim>\<open>.1\<close> is stored as 10 and the duration \<^verbatim>\<open>3.\<close> as
  300, although the exact quotient of the two floats is below 300; the duration \<^verbatim>\<open>0.29\<close>
  is stored as 28, the float quotient being 28.999999999999996; the durations \<open>2 ^ 1023\<close>
  and \<^verbatim>\<open>1e308\<close> raise \<^verbatim>\<open>OverflowError\<close>.
\<close>

theorem Alert_init_duration_and_delay_witness:
  "float_0_01 \<noteq> 0
   \<and> (\<exists>a. gas_pressed_alert = Inr a \<and> duration a = 10 \<and> creation_delay a = 1)
   \<and> (\<exists>a. ldw_alert = Inr a \<and> duration a = 300 \<and> creation_delay a = 0)
   \<and> \<lfloor>3 / float_0_01\<rfloor> = 299
   \<and> (\<exists>a. Alert_init float_0_01 ''text'' [] normal small LOW ''none'' ''none''
              (Finite float_0_29) 0 0 = Inr a \<and> duration a = 28)
   \<and> \<lfloor>(29 / 100 :: rat) / (1 / 100)\<rfloor> = 29
   \<and> Alert_init float_0_01 ''text'' [] normal small LOW ''none'' ''none''
        (Finite (2 ^ 1023)) 0 0 = Inl OverflowError
   \<and> Alert_init float_0_01 ''text'' [] normal small LOW ''none'' ''none''
        (Finite float_1e308) 0 0 = Inl OverflowError"
proof -
  have "\<exists>a. gas_pressed_alert = Inr a \<and> duration a = 10 \<and> creation_delay a = 1"
    using Alert_init_duration_and_delay [of float_0_01 "''gas''" "[]" normal small LOWEST
        "''none''" "''none''" "Finite float_0_1" 0 1 float_0_1]
    by (auto simp: gas_pressed_alert_def float_div_def float_div_0_1 py_int_def)
  moreover have "\<exists>a. ldw_alert = Inr a \<and> duration a = 300 \<and> creation_delay a = 0"
    using Alert_init_duration_and_delay [of float_0_01 "''ldw''" "[]" userPrompt small LOW
        "''ldw''" "''prompt''" "Finite 3" 0 0 3]
    by (auto simp: ldw_alert_def float_div_def float_div_3 py_int_def)
  moreover have "\<lfloor>3 / float_0_01\<rfloor> = 299"
    by (rule floor_unique) (simp_all add: float_0_01_def)
  moreover have "\<exists>a. Alert_init float_0_01 ''text'' [] normal small LOW ''none'' ''none''
              (Finite float_0_29) 0 0 = Inr a \<and> duration a = 28"
    using Alert_init_duration_and_delay [of float_0_01 "''text''" "[]" normal small LOW
        "''none''" "''none''" "Finite float_0_29" 0 0 float_0_29]
    by (auto simp: float_div_def float_div_0_29 py_int_0_29)
  moreover have "\<lfloor>(29 / 100 :: rat) / (1 / 100)\<rfloor> = 29"
    by simp
  moreover have "Alert_init float_0_01 ''text'' [] normal small LOW ''none'' ''none''
        (Finite (2 ^ 1023)) 0 0 = Inl OverflowError"
    using Alert_init_duration_and_delay [of float_0_01 "''text''" "[]" normal small LOW
        "''none''" "''none''" "Finite (2 ^ 1023)" 0 0 "2 ^ 1023"]
    by (simp add: float_0_01_def)
  moreover have "Alert_init float_0_01 ''text'' [] normal small LOW ''none'' ''none''
        (Finite float_1e308) 0 0 = Inl OverflowError"
    using Alert_init_duration_and_delay [of float_0_01 "''text''" "[]" normal small LOW
        "''none''" "''none''" "Finite float_1e308" 0 0 float_1e308]
    by (simp add: float_1e308_def float_0_01_def)
  ultimately show ?thesis by simp
qed

text \<open>
  C7 as stated fails: the alert built with \<^verbatim>\<open>creation_delay=1.\<close> and a cycle period of
  0.01 s stores the delay 1, while \<open>floor (1 / 0.01)\<close> is 100, for the exact quotient and for
  the float quotient alike.
\<close>

theorem Alert_init_creation_delay_counterexample:
  "creation_delay (projr gas_pressed_alert) = 1
   \<and> \<lfloor>(1 :: rat) / (1 / 100)\<rfloor> = 100
   \<and> round64 (1 / float_0_01) = Finite 100
   \<and> creation_delay (projr gas_pressed_alert) \<noteq> of_int \<lfloor>(1 :: rat) / (1 / 100)\<rfloor>"
  by (simp add: gas_pressed_alert_eq float_div_1)

subsection \<open>add, clear and the wire format\<close>

lemma events_add [simp]: "events (add e st s) = events s @ [e]"
  by (simp add: add_def Let_def)

lemma static_events_add [simp]:
  "static_events (add e st s) = (if st then static_events s @ [e] else static_events s)"
  by (simp add: add_def Let_def)

lemma events_prev_add [simp]: "events_prev (add e st s) = events_prev s"
  by (simp add: add_def Let_def)

lemma events_clear [simp]: "events (clear s) = static_events s"
  by (simp add: clear_def)

lemma static_events_clear [simp]: "static_events (clear s) = static_events s"
  by (simp add: clear_def)

lemma events_prev_clear:
  "events_prev (clear s) k =
     (case events_prev s k of None \<Rightarrow> None
      | Some v \<Rightarrow> Some (if k \<in> set (events s) then v + 1 else 0))"
  by (simp add: clear_def)

lemma dom_events_prev_clear [simp]: "dom (events_prev (clear s)) = dom (events_prev s)"
  by (auto simp: events_prev_clear dom_def split: option.splits)

lemma dom_events_prev_init [simp]: "dom (events_prev (Events_init EVENTS)) = dom EVENTS"
  by (auto simp: Events_init_def dom_def split: option.splits)

lemma events_add_from_msg [simp]: "events (add_from_msg msg s) = events s @ map name msg"
  by (simp add: add_from_msg_def)

lemma static_events_add_from_msg [simp]:
  "static_events (add_from_msg msg s) = static_events s"
  by (simp add: add_from_msg_def)

lemma events_prev_add_from_msg [simp]: "events_prev (add_from_msg msg s) = events_prev s"
  by (simp add: add_from_msg_def)

lemma name_to_msg [simp]: "map name (to_msg EVENTS s) = events s"
  by (simp add: to_msg_def comp_def)

text \<open>
  C2: \<^verbatim>\<open>clear()\<close> maps the streak \<open>v\<close> of every key of \<^verbatim>\<open>events_prev\<close> to \<open>v + 1\<close> if the key
  was in the active list and to 0 otherwise, and keeps the keys, which are the keys of the
  catalog from the construction on; the active list becomes the static list, which is
  unchanged, so that it is empty when the static list is.
\<close>

theorem clear_streak_and_active:
  "events_prev (clear s) k =
     (case events_prev s k of None \<Rightarrow> None
      | Some v \<Rightarrow> Some (if k \<in> set (events s) then v + 1 else 0))
   \<and> dom (events_prev (clear s)) = dom (events_prev s)
   \<and> dom (events_prev (Events_init EVENTS)) = dom EVENTS
   \<and> (dom (events_prev s) = dom EVENTS \<longrightarrow>
        (\<forall>k \<in> dom EVENTS. \<exists>v. events_prev s k = Some v
           \<and> events_prev (clear s) k = Some (if k \<in> set (events s) then v + 1 else 0)))
   \<and> events (clear s) = static_events s
   \<and> static_events (clear s) = static_events s
   \<and> (static_events s = [] \<longrightarrow> events (clear s) = [])"
  by (auto simp: events_prev_clear split: option.splits)

theorem clear_streak_and_active_witness:
  "dom (events_prev (add 2 False (clear (add 2 False (Events_init example_EVENTS)))))
     = dom example_EVENTS
   \<and> static_events (add 2 False (clear (add 2 False (Events_init example_EVENTS)))) = []
   \<and> events_prev (clear (add 2 False (clear (add 2 False (Events_init example_EVENTS))))) 2
       = Some 2
   \<and> events_prev (clear (add 2 False (clear (add 2 False (Events_init example_EVENTS))))) 3
       = Some 0
   \<and> events (clear (add 2 False (clear (add 2 False (Events_init example_EVENTS))))) = []"
  using clear_streak_and_active
    [of "add 2 False (clear (add 2 False (Events_init example_EVENTS)))" 2 example_EVENTS]
    clear_streak_and_active
    [of "add 2 False (clear (add 2 False (Events_init example_EVENTS)))" 3 example_EVENTS]
  by (simp add: events_prev_clear Events_init_def example_EVENTS_def)

text \<open>
  C8: after \<^verbatim>\<open>add(e, static=True)\<close> the event \<open>e\<close> is in the active list (and in the static
  list) after any number \<open>n\<close> of further cycles that call \<^verbatim>\<open>clear()\<close> and never \<^verbatim>\<open>add\<close>.
\<close>

theorem static_event_stays_active:
  "e \<in> set (events ((clear ^^ n) (add e True s)))
   \<and> e \<in> set (static_events ((clear ^^ n) (add e True s)))"
  by (induction n) simp_all

theorem static_event_stays_active_witness:
  "3 \<in> set (events ((clear ^^ 5) (add 3 True (Events_init example_EVENTS))))"
  using static_event_stays_active [of 3 5 "Events_init example_EVENTS"] by simp

text \<open>
  C5 as the code has it: the names of the wire events of \<^verbatim>\<open>to_msg\<close> are the active list of
  the sender \<open>s\<close>, and \<^verbatim>\<open>add_from_msg\<close> appends them to the active list of the receiver \<open>r\<close>
  and changes nothing else. The receiver's active list is the sender's exactly when the
  receiver's was empty before the call, as it is in a new \<^verbatim>\<open>Events\<close> object; fed back to
  the sender itself, the output doubles the sequence, which keeps the set of active
  events.
\<close>

theorem to_msg_add_from_msg_roundtrip:
  "map name (to_msg EVENTS s) = events s
   \<and> events (add_from_msg (to_msg EVENTS s) r) = events r @ events s
   \<and> static_events (add_from_msg (to_msg EVENTS s) r) = static_events r
   \<and> events_prev (add_from_msg (to_msg EVENTS s) r) = events_prev r
   \<and> (events (add_from_msg (to_msg EVENTS s) r) = events s) = (events r = [])
   \<and> events (add_from_msg (to_msg EVENTS s) (Events_init EVENTS)) = events s
   \<and> events (add_from_msg (to_msg EVENTS s) s) = events s @ events s
   \<and> set (events (add_from_msg (to_msg EVENTS s) s)) = set (events s)"
  by (simp add: Events_init_def)

theorem to_msg_add_from_msg_roundtrip_witness:
  "events (clear (Events_init example_EVENTS)) = []
   \<and> events (add_from_msg
        (to_msg example_EVENTS (add 3 False (add 2 False (Events_init example_EVENTS))))
        (clear (Events_init example_EVENTS))) = [2, 3]"
  using to_msg_add_from_msg_roundtrip
    [of example_EVENTS "add 3 False (add 2 False (Events_init example_EVENTS))"
      "clear (Events_init example_EVENTS)"]
  by (simp add: Events_init_def)

text \<open>
  C5 as stated fails: with the events 2 and 3 active, the output of \<^verbatim>\<open>to_msg\<close> fed to
  \<^verbatim>\<open>add_from_msg\<close> of the same object leaves the active list \<open>[2, 3, 2, 3]\<close>, and fed to an
  object that was cleared while it held the static event 1 it leaves \<open>[1, 2, 3]\<close>; neither
  is the sequence \<open>[2, 3]\<close>.
\<close>

theorem to_msg_add_from_msg_counterexample:
  "events (add 3 False (add 2 False (Events_init example_EVENTS))) = [2, 3]
   \<and> events (add_from_msg
        (to_msg example_EVENTS (add 3 False (add 2 False (Events_init example_EVENTS))))
        (add 3 False (add 2 False (Events_init example_EVENTS)))) = [2, 3, 2, 3]
   \<and> events (add_from_msg
        (to_msg example_EVENTS (add 3 False (add 2 False (Events_init example_EVENTS))))
        (clear (add 1 True (Events_init example_EVENTS)))) = [1, 2, 3]
   \<and> events (add_from_msg
        (to_msg example_EVENTS (add 3 False (add 2 False (Events_init example_EVENTS))))
        (add 3 False (add 2 False (Events_init example_EVENTS))))
       \<noteq> events (add 3 False (add 2 False (Events_init example_EVENTS)))"
  by (simp add: Events_init_def)

text \<open>
  C6 as the code has it: \<^verbatim>\<open>add_from_msg\<close> appends the decoded names to the active list and
  changes nothing else; the active list is exactly the decoded names when it was empty
  before the call.
\<close>

theorem add_from_msg_appends:
  "events (add_from_msg msg s) = events s @ map name msg
   \<and> static_events (add_from_msg msg s) = static_events s
   \<and> events_prev (add_from_msg msg s) = events_prev s
   \<and> (events s = [] \<longrightarrow> events (add_from_msg msg s) = map name msg)"
  by simp

theorem add_from_msg_appends_witness:
  "events (Events_init example_EVENTS) = []
   \<and> events (add_from_msg [gas_pressed_event]
               (Events_init example_EVENTS)) = [2]"
  using add_from_msg_appends
    [of "[gas_pressed_event]" "Events_init example_EVENTS"]
  by (simp add: Events_init_def gas_pressed_event_def)

text \<open>
  C6 as stated fails: with the event 3 active, \<^verbatim>\<open>add_from_msg\<close> of a message that holds the
  event 2 leaves the active list \<open>[3, 2]\<close>, not \<open>[2]\<close>.
\<close>

theorem add_from_msg_replace_counterexample:
  "events (add_from_msg [gas_pressed_event]
             (add 3 False (Events_init example_EVENTS))) = [3, 2]
   \<and> map name [gas_pressed_event] = [2]
   \<and> events (add_from_msg [gas_pressed_event]
               (add 3 False (Events_init example_EVENTS)))
     \<noteq> map name [gas_pressed_event]"
  by (simp add: Events_init_def gas_pressed_event_def)

subsection \<open>create_alerts: what it writes and what it returns\<close>

lemma stamp_idem [simp]: "stamp nm et (stamp nm et a) = stamp nm et a"
  by (simp add: stamp_def)

lemma creation_delay_stamp [simp]: "creation_delay (stamp nm et a) = creation_delay a"
  by (simp add: stamp_def)

lemma passes_stamp [simp]: "passes dt s e (stamp nm et a) = passes dt s e a"
  by (simp add: passes_def stamp_def split: option.splits)

lemma stamped_entry_trans:
  "stamped_entry nmo et (passes dt s e) x y \<Longrightarrow> stamped_entry nmo et (passes dt s e) y z
   \<Longrightarrow> stamped_entry nmo et (passes dt s e) x z"
  unfolding stamped_entry_def by (elim exE conjE) simp

lemma stamped_refl: "stamped dt s NM E T C C"
  unfolding stamped_def by simp

lemma stamped_trans:
  assumes ab: "stamped dt s NM E T A B" and bc: "stamped dt s NM E T B C"
  shows "stamped dt s NM E T A C"
proof -
  have keys: "(C e = None) = (A e = None)" for e
    using ab bc unfolding stamped_def by simp
  have slots: "get_or_empty C e et = get_or_empty A e et
            \<or> (e \<in> E \<and> et \<in> T
                \<and> stamped_entry (NM e) et (passes dt s e) (get_or_empty A e et) (get_or_empty C e et))" for e et
  proof -
    have 1: "get_or_empty B e et = get_or_empty A e et
            \<or> (e \<in> E \<and> et \<in> T
                \<and> stamped_entry (NM e) et (passes dt s e) (get_or_empty A e et) (get_or_empty B e et))"
      using ab unfolding stamped_def by blast
    have 2: "get_or_empty C e et = get_or_empty B e et
            \<or> (e \<in> E \<and> et \<in> T
                \<and> stamped_entry (NM e) et (passes dt s e) (get_or_empty B e et) (get_or_empty C e et))"
      using bc unfolding stamped_def by blast
    from 1 2 show ?thesis
      using stamped_entry_trans [of "NM e" et dt s e "get_or_empty A e et"
          "get_or_empty B e et" "get_or_empty C e et"]
      by metis
  qed
  show ?thesis
    unfolding stamped_def using keys slots by blast
qed


lemma stamped_entry_Fixed:
  "stamped_entry nmo et g (Some (Fixed a)) y \<Longrightarrow> \<exists>nm. nmo = Some nm \<and> y = Some (Fixed (stamp nm et a))"
  unfolding stamped_entry_def by auto

lemma stamped_entry_None: "\<not> stamped_entry nmo et g None y"
  unfolding stamped_entry_def by simp

lemma stamped_entry_Callback: "\<not> stamped_entry nmo et g (Some (Callback f)) y"
  unfolding stamped_entry_def by simp

lemma stamped_lookup:
  assumes "stamped dt s NM E T C D" "C e = Some d"
  shows "\<exists>d'. D e = Some d'
           \<and> (d' et = d et \<or> (e \<in> E \<and> et \<in> T \<and> stamped_entry (NM e) et (passes dt s e) (d et) (d' et)))"
proof -
  from assms have "D e \<noteq> None" unfolding stamped_def by simp
  then obtain d' where d': "D e = Some d'" by blast
  from assms(1) have "get_or_empty D e et = get_or_empty C e et
            \<or> (e \<in> E \<and> et \<in> T
                \<and> stamped_entry (NM e) et (passes dt s e) (get_or_empty C e et) (get_or_empty D e et))"
    unfolding stamped_def by blast
  with d' assms(2) show ?thesis by (simp add: get_or_empty_def)
qed

lemma body_stamped:
  assumes run: "create_alerts_body dt NM s args e et C ret = (C', r)"
    and "e \<in> E" "et \<in> T"
  shows "stamped dt s NM E T C C'"
proof -
  have "C' = C \<or> (\<exists>d a nm. C e = Some d \<and> d et = Some (Fixed a) \<and> NM e = Some nm
          \<and> passes dt s e a \<and> C' = C(e \<mapsto> d(et \<mapsto> Fixed (stamp nm et a))))"
    using run unfolding create_alerts_body_def alert_of_def passes_def
    by (simp split: option.splits entry.splits sum.splits if_splits)
  then show ?thesis
  proof
    assume "C' = C" then show ?thesis by (simp add: stamped_refl)
  next
    assume "\<exists>d a nm. C e = Some d \<and> d et = Some (Fixed a) \<and> NM e = Some nm
          \<and> passes dt s e a \<and> C' = C(e \<mapsto> d(et \<mapsto> Fixed (stamp nm et a)))"
    then obtain d a nm where h: "C e = Some d" "d et = Some (Fixed a)" "NM e = Some nm"
      "passes dt s e a" "C' = C(e \<mapsto> d(et \<mapsto> Fixed (stamp nm et a)))" by blast
    have keys: "(C' x = None) = (C x = None)" for x
      using h by simp
    have slots: "get_or_empty C' x t = get_or_empty C x t
            \<or> (x \<in> E \<and> t \<in> T
                \<and> stamped_entry (NM x) t (passes dt s x) (get_or_empty C x t) (get_or_empty C' x t))" for x t
    proof (cases "x = e \<and> t = et")
      case True
      with h assms(2,3) show ?thesis
        by (simp add: get_or_empty_def stamped_entry_def)
    next
      case False
      with h show ?thesis
        by (auto simp: get_or_empty_def)
    qed
    show ?thesis unfolding stamped_def using keys slots by blast
  qed
qed

lemma body_fix:
  assumes run: "create_alerts_body dt NM s args e et C ret = (C1, r)"
    and CD: "stamped dt s NM E T C D" and C1D: "stamped dt s NM E T C1 D"
  shows "create_alerts_body dt NM s args e et D ret = (D, r)"
proof (cases "C e")
  case None
  then have "D e = None" using CD unfolding stamped_def by simp
  with None run show ?thesis by (simp add: create_alerts_body_def alert_of_def)
next
  case (Some d)
  from stamped_lookup [OF CD Some, of et] obtain d' where d': "D e = Some d'"
    and slot: "d' et = d et \<or> stamped_entry (NM e) et (passes dt s e) (d et) (d' et)" by blast
  show ?thesis
  proof (cases "d et")
    case None
    with slot have "d' et = None" by (simp add: stamped_entry_None)
    with None Some d' run show ?thesis by (simp add: create_alerts_body_def alert_of_def)
  next
    case (Some x)
    note dx = this
    show ?thesis
    proof (cases x)
      case (Callback f)
      with slot dx have "d' et = Some (Callback f)" by (simp add: stamped_entry_Callback)
      with Callback dx \<open>C e = Some d\<close> d' run show ?thesis
        by (simp add: create_alerts_body_def alert_of_def split: sum.splits option.splits if_splits)
    next
      case (Fixed a)
      with slot dx have "d' et = Some (Fixed a)
          \<or> (\<exists>nm. NM e = Some nm \<and> d' et = Some (Fixed (stamp nm et a)))"
        using stamped_entry_Fixed [of "NM e" et _ a "d' et"] by auto
      then obtain a' where a': "d' et = Some (Fixed a')"
        and cd: "creation_delay a' = creation_delay a"
        and a'_cases: "a' = a \<or> (\<exists>nm. NM e = Some nm \<and> a' = stamp nm et a)"
        by auto
      show ?thesis
      proof (cases "events_prev s e")
        case None
        with Fixed dx \<open>C e = Some d\<close> d' a' run show ?thesis
          by (simp add: create_alerts_body_def alert_of_def)
      next
        case (Some c)
        note c = this
        show ?thesis
        proof (cases "dt * of_int (c + 1) \<ge> creation_delay a")
          case False
          with c Fixed dx \<open>C e = Some d\<close> d' a' cd run show ?thesis
            by (simp add: create_alerts_body_def alert_of_def)
        next
          case True
          note gate = this
          show ?thesis
          proof (cases "NM e")
            case None
            with gate c Fixed dx \<open>C e = Some d\<close> d' a' cd run show ?thesis
              by (simp add: create_alerts_body_def alert_of_def)
          next
            case (Some nm)
            from run gate c Fixed dx \<open>C e = Some d\<close> Some
            have C1: "C1 = C(e \<mapsto> d(et \<mapsto> Fixed (stamp nm et a)))"
              and r: "r = Inr (ret @ [stamp nm et a])"
              by (simp_all add: create_alerts_body_def alert_of_def)
            from C1 have "C1 e = Some (d(et \<mapsto> Fixed (stamp nm et a)))" by simp
            from stamped_lookup [OF C1D this, of et] d'
            have "d' et = Some (Fixed (stamp nm et a))
              \<or> stamped_entry (NM e) et (passes dt s e) (Some (Fixed (stamp nm et a))) (d' et)"
              by auto
            then have "d' et = Some (Fixed (stamp nm et a))"
              using stamped_entry_Fixed [of "NM e" et _ "stamp nm et a" "d' et"] Some by auto
            with a' have a'_eq: "a' = stamp nm et a" by simp
            have "d'(et \<mapsto> Fixed (stamp nm et a)) = d'"
              using a' a'_eq by (simp add: fun_upd_idem)
            then have "D(e \<mapsto> d'(et \<mapsto> Fixed (stamp nm et a))) = D"
              using d' by (simp add: fun_upd_idem)
            with gate c d' a' a'_eq Some r show ?thesis
              by (simp add: create_alerts_body_def alert_of_def)
          qed
        qed
      qed
    qed
  qed
qed


lemma types_stamped:
  "create_alerts_types dt NM s args e ets C ret = (C', r) \<Longrightarrow> e \<in> E \<Longrightarrow> set ets \<subseteq> T
   \<Longrightarrow> stamped dt s NM E T C C'"
proof (induction ets arbitrary: C ret)
  case Nil
  then show ?case by (simp add: stamped_refl)
next
  case (Cons et ets)
  obtain C2 r2 where body: "create_alerts_body dt NM s args e et C ret = (C2, r2)"
    by (cases "create_alerts_body dt NM s args e et C ret") blast
  have step: "stamped dt s NM E T C C2"
    using body_stamped [OF body] Cons.prems by simp
  show ?case
  proof (cases r2)
    case (Inl err)
    with body Cons.prems(1) have "C' = C2" by simp
    with step show ?thesis by simp
  next
    case (Inr ret2)
    with body Cons.prems(1)
    have "create_alerts_types dt NM s args e ets C2 ret2 = (C', r)" by simp
    from Cons.IH [OF this] Cons.prems have "stamped dt s NM E T C2 C'" by simp
    with step show ?thesis by (rule stamped_trans)
  qed
qed

lemma types_fix:
  "create_alerts_types dt NM s args e ets C ret = (C1, r) \<Longrightarrow> e \<in> E \<Longrightarrow> set ets \<subseteq> T
   \<Longrightarrow> stamped dt s NM E T C D \<Longrightarrow> stamped dt s NM E T C1 D
   \<Longrightarrow> create_alerts_types dt NM s args e ets D ret = (D, r)"
proof (induction ets arbitrary: C ret)
  case Nil
  then show ?case by simp
next
  case (Cons et ets)
  obtain C2 r2 where body: "create_alerts_body dt NM s args e et C ret = (C2, r2)"
    by (cases "create_alerts_body dt NM s args e et C ret") blast
  have mem: "e \<in> E" "et \<in> T" "set ets \<subseteq> T" using Cons.prems by simp_all
  show ?case
  proof (cases r2)
    case (Inl err)
    with body Cons.prems(1) have eq: "C1 = C2" "r = Inl err" by simp_all
    from body_fix [OF body Cons.prems(4)] Cons.prems(5) eq
    have "create_alerts_body dt NM s args e et D ret = (D, r2)" by simp
    with Inl eq show ?thesis by simp
  next
    case (Inr ret2)
    with body Cons.prems(1)
    have rest: "create_alerts_types dt NM s args e ets C2 ret2 = (C1, r)" by simp
    have "stamped dt s NM E T C2 C1" using types_stamped [OF rest mem(1,3)] .
    then have C2D: "stamped dt s NM E T C2 D" using Cons.prems(5) by (rule stamped_trans)
    from body_fix [OF body Cons.prems(4) C2D]
    have "create_alerts_body dt NM s args e et D ret = (D, r2)" .
    moreover from Cons.IH [OF rest mem(1,3) C2D Cons.prems(5)]
    have "create_alerts_types dt NM s args e ets D ret2 = (D, r)" .
    ultimately show ?thesis using Inr by simp
  qed
qed

lemma events_stamped:
  "create_alerts_events dt NM s args ets es C ret = (C', r) \<Longrightarrow> set es \<subseteq> E \<Longrightarrow> set ets \<subseteq> T
   \<Longrightarrow> stamped dt s NM E T C C'"
proof (induction es arbitrary: C ret)
  case Nil
  then show ?case by (simp add: stamped_refl)
next
  case (Cons e es)
  show ?case
  proof (cases "C e")
    case None
    with Cons.prems(1) show ?thesis by (simp add: stamped_refl)
  next
    case (Some d)
    obtain C2 r2 where inner: "create_alerts_types dt NM s args e ets C ret = (C2, r2)"
      by (cases "create_alerts_types dt NM s args e ets C ret") blast
    have step: "stamped dt s NM E T C C2"
      using types_stamped [OF inner] Cons.prems by simp
    show ?thesis
    proof (cases r2)
      case (Inl err)
      with inner Some Cons.prems(1) have "C' = C2" by simp
      with step show ?thesis by simp
    next
      case (Inr ret2)
      with inner Some Cons.prems(1)
      have "create_alerts_events dt NM s args ets es C2 ret2 = (C', r)" by simp
      from Cons.IH [OF this] Cons.prems have "stamped dt s NM E T C2 C'" by simp
      with step show ?thesis by (rule stamped_trans)
    qed
  qed
qed

lemma events_fix:
  "create_alerts_events dt NM s args ets es C ret = (C1, r) \<Longrightarrow> set es \<subseteq> E \<Longrightarrow> set ets \<subseteq> T
   \<Longrightarrow> stamped dt s NM E T C D \<Longrightarrow> stamped dt s NM E T C1 D
   \<Longrightarrow> create_alerts_events dt NM s args ets es D ret = (D, r)"
proof (induction es arbitrary: C ret)
  case Nil
  then show ?case by simp
next
  case (Cons e es)
  have mem: "e \<in> E" "set es \<subseteq> E" "set ets \<subseteq> T" using Cons.prems by simp_all
  show ?case
  proof (cases "C e")
    case None
    then have "D e = None" using Cons.prems(4) unfolding stamped_def by simp
    with None Cons.prems(1) show ?thesis by simp
  next
    case (Some d)
    then have "D e \<noteq> None" using Cons.prems(4) unfolding stamped_def by simp
    then obtain d' where d': "D e = Some d'" by blast
    obtain C2 r2 where inner: "create_alerts_types dt NM s args e ets C ret = (C2, r2)"
      by (cases "create_alerts_types dt NM s args e ets C ret") blast
    show ?thesis
    proof (cases r2)
      case (Inl err)
      with inner Some Cons.prems(1) have eq: "C1 = C2" "r = Inl err" by simp_all
      from types_fix [OF inner mem(1,3) Cons.prems(4)] Cons.prems(5) eq
      have "create_alerts_types dt NM s args e ets D ret = (D, r2)" by simp
      with Inl eq d' show ?thesis by simp
    next
      case (Inr ret2)
      with inner Some Cons.prems(1)
      have rest: "create_alerts_events dt NM s args ets es C2 ret2 = (C1, r)" by simp
      have "stamped dt s NM E T C2 C1" using events_stamped [OF rest mem(2,3)] .
      then have C2D: "stamped dt s NM E T C2 D" using Cons.prems(5) by (rule stamped_trans)
      from types_fix [OF inner mem(1,3) Cons.prems(4) C2D]
      have "create_alerts_types dt NM s args e ets D ret = (D, r2)" .
      moreover from Cons.IH [OF rest mem(2,3) C2D Cons.prems(5)]
      have "create_alerts_events dt NM s args ets es D ret2 = (D, r)" .
      ultimately show ?thesis using Inr d' by simp
    qed
  qed
qed

text \<open>
  C9: a second call of \<^verbatim>\<open>create_alerts\<close> on the same \<^verbatim>\<open>Events\<close> object with the same
  arguments, run on the catalog as the first call left it, returns what the first call
  returned (the same list of alerts, or the same exception) and leaves the catalog as the
  first call left it. The method assigns to no attribute of the \<^verbatim>\<open>Events\<close> object, which is
  therefore the same in both calls.
\<close>

theorem create_alerts_twice:
  "create_alerts dt NM (fst (create_alerts dt NM EVENTS s ets args)) s ets args
     = create_alerts dt NM EVENTS s ets args"
proof -
  obtain C1 r where run: "create_alerts dt NM EVENTS s ets args = (C1, r)"
    by (cases "create_alerts dt NM EVENTS s ets args") blast
  then have run': "create_alerts_events dt NM s (case args of None \<Rightarrow> [] | Some xs \<Rightarrow> xs) ets
      (events s) EVENTS [] = (C1, r)"
    by (simp add: create_alerts_def)
  have "stamped dt s NM (set (events s)) (set ets) EVENTS C1"
    using events_stamped [OF run'] by simp
  from events_fix [OF run' _ _ this stamped_refl]
  have "create_alerts dt NM C1 s ets args = (C1, r)"
    by (simp add: create_alerts_def)
  with run show ?thesis by simp
qed





lemma events_unknown:
  "e \<in> set es \<Longrightarrow> C e = None
   \<Longrightarrow> \<exists>C' err. create_alerts_events dt NM s args ets es C ret = (C', Inl err)"
proof (induction es arbitrary: C ret)
  case Nil
  then show ?case by simp
next
  case (Cons x es)
  show ?case
  proof (cases "C x")
    case None
    then show ?thesis by simp
  next
    case (Some d)
    with Cons.prems have mem: "e \<in> set es" by auto
    obtain C2 r2 where inner: "create_alerts_types dt NM s args x ets C ret = (C2, r2)"
      by (cases "create_alerts_types dt NM s args x ets C ret") blast
    show ?thesis
    proof (cases r2)
      case (Inl err)
      with inner Some show ?thesis by simp
    next
      case (Inr ret2)
      have "stamped dt s NM UNIV UNIV C C2" using types_stamped [OF inner] by simp
      with Cons.prems(2) have "C2 e = None" unfolding stamped_def by simp
      with Cons.IH [of C2 ret2] mem inner Inr Some show ?thesis by simp
    qed
  qed
qed


subsection \<open>create_alerts against the specification's resolve\<close>





subsection \<open>Cycles and the streak counter\<close>

lemma foldl_add:
  "events (foldl (\<lambda>s (e, st). add e st s) t adds) = events t @ map fst adds
   \<and> events_prev (foldl (\<lambda>s (e, st). add e st s) t adds) = events_prev t"
  by (induction adds arbitrary: t) (auto simp: case_prod_beta)

lemma events_cycle [simp]: "events (cycle adds s) = static_events s @ map fst adds"
  by (simp add: cycle_def foldl_add)


lemma cycles_snoc [simp]: "cycles (addss @ [adds]) s = cycle adds (cycles addss s)"
  by (simp add: cycles_def)

lemma cycles_Nil [simp]: "cycles [] s = s"
  by (simp add: cycles_def)



subsection \<open>When create_alerts returns a list\<close>






subsection \<open>The example catalog\<close>

lemma example_EVENTS_simps:
  "example_EVENTS 1 = Some Map.empty"
  "example_EVENTS 2 = Some [''preEnable'' \<mapsto> Fixed (projr gas_pressed_alert)]"
  "example_EVENTS 3 = Some [''permanent'' \<mapsto> Fixed (projr ldw_alert)]"
  "example_EVENTS 9 = None"
  by (simp_all add: example_EVENTS_def)


lemma Events_init_simps [simp]:
  "events (Events_init EVENTS) = []"
  "static_events (Events_init EVENTS) = []"
  "events_prev (Events_init EVENTS) k = (case EVENTS k of None \<Rightarrow> None | Some _ \<Rightarrow> Some 0)"
  by (simp_all add: Events_init_def)






subsection \<open>The creation-delay gate\<close>




subsection \<open>An active event that is not in the catalog\<close>

text \<open>
  C3 as the code has it: for an active event \<open>e\<close> that is not a key of the catalog, \<^verbatim>\<open>any\<close>
  answers as if \<open>e\<close> were not active, \<^verbatim>\<open>to_msg\<close> encodes every active event and sets no flag
  for \<open>e\<close>, and \<^verbatim>\<open>create_alerts\<close> raises: it never returns a list, and the exception is the
  \<^verbatim>\<open>KeyError\<close> of \<^verbatim>\<open>EVENTS[e]\<close> (line 88) when \<open>e\<close> is the first active event.
\<close>

theorem unknown_event_outcomes:
  assumes "EVENTS e = None" and "e \<in> set (events s)"
  shows "any EVENTS s et = any EVENTS (s\<lparr>events := removeAll e (events s)\<rparr>) et
    \<and> length (to_msg EVENTS s) = length (events s)
    \<and> (\<forall>ev \<in> set (to_msg EVENTS s). name ev = e \<longrightarrow> (\<forall>t. \<not> flags ev t))
    \<and> (\<exists>EVENTS' err. create_alerts dt EVENT_NAME EVENTS s event_types callback_args
          = (EVENTS', Inl err))
    \<and> (\<forall>es. events s = e # es
          \<longrightarrow> create_alerts dt EVENT_NAME EVENTS s event_types callback_args
                = (EVENTS, Inl KeyError))"
proof -
  have none: "get_or_empty EVENTS e t = None" for t
    using assms(1) by (simp add: get_or_empty_def)
  have "any EVENTS s et = any EVENTS (s\<lparr>events := removeAll e (events s)\<rparr>) et"
    using none [of et] by (auto simp: any_def list_ex_iff)
  moreover have "length (to_msg EVENTS s) = length (events s)"
    by (simp add: to_msg_def)
  moreover have "\<forall>ev \<in> set (to_msg EVENTS s). name ev = e \<longrightarrow> (\<forall>t. \<not> flags ev t)"
    using none by (auto simp: to_msg_def)
  moreover have "\<exists>EVENTS' err. create_alerts dt EVENT_NAME EVENTS s event_types callback_args
          = (EVENTS', Inl err)"
    unfolding create_alerts_def
    using events_unknown [of e "events s" EVENTS] assms by blast
  moreover have "create_alerts dt EVENT_NAME EVENTS s event_types callback_args
                = (EVENTS, Inl KeyError)" if "events s = e # es" for es
    using that assms(1) by (simp add: create_alerts_def)
  ultimately show ?thesis by blast
qed

theorem unknown_event_outcomes_witness:
  "example_EVENTS 9 = None
   \<and> events (add_from_msg [unknown_event]
               (add 2 False (Events_init example_EVENTS))) = [2, 9]
   \<and> any example_EVENTS (add_from_msg [unknown_event]
               (add 2 False (Events_init example_EVENTS))) ''preEnable''
   \<and> \<not> any example_EVENTS (add_from_msg [unknown_event]
               (add 2 False (Events_init example_EVENTS))) ''warning''
   \<and> (\<exists>EVENTS' err. create_alerts (1 / 100) example_EVENT_NAME example_EVENTS
          (add_from_msg [unknown_event]
               (add 2 False (Events_init example_EVENTS))) [''preEnable''] None
          = (EVENTS', Inl err))"
  using unknown_event_outcomes [of example_EVENTS 9
      "add_from_msg [unknown_event]
         (add 2 False (Events_init example_EVENTS))"
      "''preEnable''" "1 / 100" example_EVENT_NAME "[''preEnable'']" None]
    unknown_event_outcomes [of example_EVENTS 9
      "add_from_msg [unknown_event]
         (add 2 False (Events_init example_EVENTS))"
      "''warning''" "1 / 100" example_EVENT_NAME "[''preEnable'']" None]
  by (simp add: example_EVENTS_simps any_def get_or_empty_def unknown_event_def)

text \<open>
  C3 as stated fails: with the event 9, which the example catalog does not hold, taken
  from a wire message, \<^verbatim>\<open>create_alerts\<close> raises \<^verbatim>\<open>KeyError\<close>.
\<close>

theorem create_alerts_unknown_event_counterexample:
  "example_EVENTS 9 = None
   \<and> events (add_from_msg [unknown_event]
               (Events_init example_EVENTS)) = [9]
   \<and> snd (create_alerts (1 / 100) example_EVENT_NAME example_EVENTS
            (add_from_msg [unknown_event]
               (Events_init example_EVENTS)) [''warning''] None) = Inl KeyError"
  by (simp add: create_alerts_def example_EVENTS_simps unknown_event_def)

subsection \<open>The catalog after create_alerts\<close>









end
